theory Spec2Isabelle
  imports Complex_Main
begin

section \<open>Python floats\<close>

text \<open>
  The program computes with Python floats.  Their special values are kept as the
  program sees them: \<open>float('inf')\<close>, \<open>float('-inf')\<close> and the not-a-number that
  \<open>inf - inf\<close> or \<open>inf * 0\<close> produce.  A finite float, and a Python integer where
  the JSON text holds one, is a real number; arithmetic on finite values is exact
  (rounding, overflow and the sign of zero are left out of the model).
\<close>

datatype fl = NaN | NInf | Fin real | PInf

text \<open>Python \<open>a < b\<close>, \<open>a <= b\<close> and \<open>a == b\<close> on floats: every comparison with NaN is false.\<close>

fun fl_lt :: "fl \<Rightarrow> fl \<Rightarrow> bool" where
  "fl_lt NaN _ = False"
| "fl_lt _ NaN = False"
| "fl_lt NInf NInf = False"
| "fl_lt NInf _ = True"
| "fl_lt (Fin a) (Fin b) = (a < b)"
| "fl_lt (Fin a) PInf = True"
| "fl_lt (Fin a) NInf = False"
| "fl_lt PInf _ = False"

fun fl_eq :: "fl \<Rightarrow> fl \<Rightarrow> bool" where
  "fl_eq NaN _ = False"
| "fl_eq _ NaN = False"
| "fl_eq a b = (a = b)"

definition fl_le :: "fl \<Rightarrow> fl \<Rightarrow> bool" where
  "fl_le a b = (fl_lt a b \<or> fl_eq a b)"

fun fl_neg :: "fl \<Rightarrow> fl" where
  "fl_neg NaN = NaN"
| "fl_neg NInf = PInf"
| "fl_neg PInf = NInf"
| "fl_neg (Fin a) = Fin (- a)"

fun fl_add :: "fl \<Rightarrow> fl \<Rightarrow> fl" where
  "fl_add NaN _ = NaN"
| "fl_add _ NaN = NaN"
| "fl_add PInf NInf = NaN"
| "fl_add NInf PInf = NaN"
| "fl_add PInf _ = PInf"
| "fl_add _ PInf = PInf"
| "fl_add NInf _ = NInf"
| "fl_add _ NInf = NInf"
| "fl_add (Fin a) (Fin b) = Fin (a + b)"

definition fl_sub :: "fl \<Rightarrow> fl \<Rightarrow> fl" where
  "fl_sub a b = fl_add a (fl_neg b)"

text \<open>The sign of a float: \<open>-1\<close>, \<open>0\<close>, \<open>1\<close>; used for products with an infinity.\<close>

fun fl_sgn :: "fl \<Rightarrow> int" where
  "fl_sgn NaN = 0"
| "fl_sgn NInf = - 1"
| "fl_sgn PInf = 1"
| "fl_sgn (Fin a) = (if a < 0 then - 1 else if a = 0 then 0 else 1)"

fun fl_mul :: "fl \<Rightarrow> fl \<Rightarrow> fl" where
  "fl_mul NaN _ = NaN"
| "fl_mul _ NaN = NaN"
| "fl_mul (Fin a) (Fin b) = Fin (a * b)"
| "fl_mul a b =
     (if fl_sgn a * fl_sgn b = 0 then NaN
      else if fl_sgn a * fl_sgn b < 0 then NInf else PInf)"

instantiation fl :: "{zero, plus, minus, uminus, times, ord}"
begin

definition zero_fl :: fl where "zero_fl = Fin 0"
definition plus_fl :: "fl \<Rightarrow> fl \<Rightarrow> fl" where "plus_fl = fl_add"
definition minus_fl :: "fl \<Rightarrow> fl \<Rightarrow> fl" where "minus_fl = fl_sub"
definition uminus_fl :: "fl \<Rightarrow> fl" where "uminus_fl = fl_neg"
definition times_fl :: "fl \<Rightarrow> fl \<Rightarrow> fl" where "times_fl = fl_mul"
definition less_fl :: "fl \<Rightarrow> fl \<Rightarrow> bool" where "less_fl = fl_lt"
definition less_eq_fl :: "fl \<Rightarrow> fl \<Rightarrow> bool" where "less_eq_fl = fl_le"

instance ..

end

text \<open>
  Python's \<open>min(a, b)\<close> and \<open>max(a, b)\<close> keep the first argument unless the second
  compares strictly below (above) it, so a NaN second argument is ignored.
\<close>

definition py_min :: "fl \<Rightarrow> fl \<Rightarrow> fl" where
  "py_min a b = (if b < a then b else a)"

definition py_max :: "fl \<Rightarrow> fl \<Rightarrow> fl" where
  "py_max a b = (if a < b then b else a)"

section \<open>Points\<close>

text \<open>A \<open>Gf.Vec3f\<close> / \<open>Gf.Vec3d\<close>: three floats, read as \<open>p[0]\<close>, \<open>p[1]\<close>, \<open>p[2]\<close>.\<close>

type_synonym vec3 = "fl \<times> fl \<times> fl"

definition vx :: "vec3 \<Rightarrow> fl" where "vx p = fst p"
definition vy :: "vec3 \<Rightarrow> fl" where "vy p = fst (snd p)"
definition vz :: "vec3 \<Rightarrow> fl" where "vz p = snd (snd p)"

text \<open>\<open>p != q\<close> on vectors: some component differs under float equality.\<close>

definition vec_ne :: "vec3 \<Rightarrow> vec3 \<Rightarrow> bool" where
  "vec_ne p q = (\<not> (fl_eq (vx p) (vx q) \<and> fl_eq (vy p) (vy q) \<and> fl_eq (vz p) (vz q)))"

text \<open>\<open>Gf.Cross(a, b)\<close>, the cross product of two vectors.\<close>

definition gf_cross :: "vec3 \<Rightarrow> vec3 \<Rightarrow> vec3" where
  "gf_cross a b =
     (vy a * vz b - vz a * vy b,
      vz a * vx b - vx a * vz b,
      vx a * vy b - vy a * vx b)"

text \<open>A point with finite coordinates.\<close>

definition pt :: "real \<times> real \<times> real \<Rightarrow> vec3" where
  "pt p = (Fin (fst p), Fin (fst (snd p)), Fin (snd (snd p)))"

section \<open>The triangulator\<close>

text \<open>The nested \<open>sign\<close> of \<open>_point_in_triangle\<close>.\<close>

definition sign :: "vec3 \<Rightarrow> vec3 \<Rightarrow> vec3 \<Rightarrow> fl" where
  "sign p1 p2 p3 =
     (vx p1 - vx p3) * (vz p2 - vz p3) - (vx p2 - vx p3) * (vz p1 - vz p3)"

definition point_in_triangle :: "vec3 \<Rightarrow> vec3 \<Rightarrow> vec3 \<Rightarrow> vec3 \<Rightarrow> bool" where
  "point_in_triangle p a b c =
     (let d1 = sign p a b;
          d2 = sign p b c;
          d3 = sign p c a;
          has_neg = (d1 < 0 \<or> d2 < 0 \<or> d3 < 0);
          has_pos = (0 < d1 \<or> 0 < d2 \<or> 0 < d3)
      in \<not> (has_neg \<and> has_pos))"

text \<open>
  \<open>xs.index(x)\<close>: the position of the first occurrence.  The triangulator only asks
  for members of the list (Python raises ValueError otherwise; here the length of the
  list is returned).
\<close>

fun index_of :: "'a list \<Rightarrow> 'a \<Rightarrow> nat" where
  "index_of [] x = 0"
| "index_of (y # ys) x = (if y = x then 0 else Suc (index_of ys x))"

text \<open>
  The neighbours of \<open>i\<close> in the list of remaining indices:
  \<open>remaining[(remaining.index(i) - 1) % size]\<close> and
  \<open>remaining[(remaining.index(i) + 1) % size]\<close>, with Python's non-negative \<open>%\<close>.
\<close>

definition prev_of :: "nat list \<Rightarrow> nat \<Rightarrow> nat" where
  "prev_of remaining i =
     remaining ! nat ((int (index_of remaining i) - 1) mod int (length remaining))"

definition next_of :: "nat list \<Rightarrow> nat \<Rightarrow> nat" where
  "next_of remaining i =
     remaining ! nat ((int (index_of remaining i) + 1) mod int (length remaining))"

text \<open>The Y component of the cross product that \<open>is_valid_ear\<close> tests.\<close>

definition ear_cross_y :: "vec3 \<Rightarrow> vec3 \<Rightarrow> vec3 \<Rightarrow> fl" where
  "ear_cross_y p1 p2 p3 =
     (let v1 = (vx p2 - vx p1, vy p2 - vy p1, vz p2 - vz p1);
          v2 = (vx p3 - vx p2, vy p3 - vy p2, vz p3 - vz p2);
          cross = gf_cross v1 v2
      in vy cross)"

definition is_valid_ear :: "vec3 list \<Rightarrow> nat list \<Rightarrow> nat \<Rightarrow> bool" where
  "is_valid_ear vertices remaining i =
     (let size = length remaining in
      if size < 3 then False
      else
        let prev_idx = prev_of remaining i;
            next_idx = next_of remaining i;
            p1 = vertices ! prev_idx;
            p2 = vertices ! i;
            p3 = vertices ! next_idx
        in if ear_cross_y p1 p2 p3 \<le> 0 then False
           else \<not> list_ex (\<lambda>j. j \<notin> {prev_idx, i, next_idx}
                                \<and> point_in_triangle (vertices ! j) p1 p2 p3) remaining)"

text \<open>
  The main loop, on the pair \<open>(remaining, indices)\<close>: while more than three indices
  remain, the first valid ear in the current order is emitted and removed; when a scan
  finds none, the loop breaks.
\<close>

function ear_loop :: "vec3 list \<Rightarrow> nat list \<Rightarrow> nat list \<Rightarrow> nat list \<times> nat list" where
  "ear_loop vertices remaining indices =
     (if length remaining > 3 then
        (case find (is_valid_ear vertices remaining) remaining of
           None \<Rightarrow> (remaining, indices)
         | Some i \<Rightarrow>
             ear_loop vertices (remove1 i remaining)
               (indices @ [prev_of remaining i, i, next_of remaining i]))
      else (remaining, indices))"
  by pat_completeness auto
termination
proof (relation "measure (\<lambda>(vertices, remaining, indices). length remaining)")
  show "wf (measure (\<lambda>(vertices, remaining, indices). length remaining))"
    by simp
next
  fix vertices :: "vec3 list" and remaining indices :: "nat list" and i :: nat
  assume long: "3 < length remaining"
    and found: "find (is_valid_ear vertices remaining) remaining = Some i"
  from found have "i \<in> set remaining"
    by (auto simp: find_Some_iff)
  then have "length (remove1 i remaining) < length remaining"
    using long by (simp add: length_remove1)
  then show "((vertices, remove1 i remaining,
                 indices @ [prev_of remaining i, i, next_of remaining i]),
              (vertices, remaining, indices))
             \<in> measure (\<lambda>(vertices, remaining, indices). length remaining)"
    by simp
qed

declare ear_loop.simps [simp del]

text \<open>
  The working vertex array: the ring is closed by appending its first point when the
  first and last points differ, then the last point is dropped.
\<close>

definition working_vertices :: "vec3 list \<Rightarrow> vec3 list" where
  "working_vertices points =
     butlast (if vec_ne (points ! 0) (last points) then points @ [points ! 0] else points)"

text \<open>
  The rest of \<open>_triangulate_polygon\<close> on the working vertex array: the loop from
  \<open>remaining = list(range(len(vertices)))\<close> and no indices, then the final triangle
  when exactly three indices remain.
\<close>

definition ear_clip :: "vec3 list \<Rightarrow> nat list" where
  "ear_clip vertices =
     (let (remaining, indices) = ear_loop vertices [0..<length vertices] []
      in if length remaining = 3 then indices @ remaining else indices)"

definition triangulate_polygon :: "vec3 list \<Rightarrow> nat list" where
  "triangulate_polygon points =
     (if length points < 3 then []
      else
        let vertices = working_vertices points in
        if length vertices < 3 then []
        else ear_clip vertices)"

subsection \<open>Geometry of rings with finite coordinates\<close>

definition rx :: "real \<times> real \<times> real \<Rightarrow> real" where "rx p = fst p"
definition rz :: "real \<times> real \<times> real \<Rightarrow> real" where "rz p = snd (snd p)"

text \<open>
  The signed area of the triangle \<open>p q r\<close> in the X/Z plane, positive when the three
  points run counter-clockwise seen from \<open>+Y\<close>, that is when the normal
  \<open>(q - p) \<times> (r - p)\<close> points up.
\<close>

definition signed_area_xz ::
  "real \<times> real \<times> real \<Rightarrow> real \<times> real \<times> real \<Rightarrow> real \<times> real \<times> real \<Rightarrow> real" where
  "signed_area_xz p q r =
     ((rz q - rz p) * (rx r - rx p) - (rx q - rx p) * (rz r - rz p)) / 2"


text \<open>Two points at the same place of the X/Z plane.\<close>

definition same_xz :: "real \<times> real \<times> real \<Rightarrow> real \<times> real \<times> real \<Rightarrow> bool" where
  "same_xz p q = (rx p = rx q \<and> rz p = rz q)"




text \<open>The ring without its closing point, when the first point is repeated at the end.\<close>

definition open_ring :: "(real \<times> real \<times> real) list \<Rightarrow> (real \<times> real \<times> real) list" where
  "open_ring ps = (if hd ps = last ps then butlast ps else ps)"

text \<open>The index triples of a flat index list.\<close>

fun triangles :: "nat list \<Rightarrow> (nat \<times> nat \<times> nat) list" where
  "triangles (a # b # c # rest) = (a, b, c) # triangles rest"
| "triangles _ = []"


section \<open>JSON values as Python sees them\<close>

text \<open>
  What \<open>json.load\<close> returns: \<open>None\<close>, a bool, a number (an int or a float, with
  Python's extra literals \<open>NaN\<close>, \<open>Infinity\<close> and \<open>-Infinity\<close>), a string, a
  list or a dict with string keys.  A dict is the list of its items, in the order of the
  dict, each key once.  The elements of a string are its characters.
\<close>

datatype json =
    JNull
  | JBool bool
  | JNum fl
  | JStr string
  | JArr "json list"
  | JObj "(string \<times> json) list"

text \<open>The exceptions the program can raise on such values.\<close>

datatype error =
    KeyError
  | TypeError
  | IndexError
  | AttributeError
  | ValueError
  | ZeroDivisionError

definition and_then :: "error + 'a \<Rightarrow> ('a \<Rightarrow> error + 'b) \<Rightarrow> error + 'b" where
  "and_then m f = (case m of Inl e \<Rightarrow> Inl e | Inr v \<Rightarrow> f v)"

text \<open>\<open>obj[key]\<close> with a string key: only a dict accepts it.\<close>

fun py_getitem :: "json \<Rightarrow> string \<Rightarrow> error + json" where
  "py_getitem (JObj kvs) k = (case map_of kvs k of None \<Rightarrow> Inl KeyError | Some v \<Rightarrow> Inr v)"
| "py_getitem _ k = Inl TypeError"

text \<open>\<open>obj.get(key, default)\<close>: only a dict has the method.\<close>

fun py_get :: "json \<Rightarrow> string \<Rightarrow> json \<Rightarrow> error + json" where
  "py_get (JObj kvs) k d = Inr (case map_of kvs k of None \<Rightarrow> d | Some v \<Rightarrow> v)"
| "py_get _ k d = Inl AttributeError"

text \<open>\<open>obj[n]\<close> with a non-negative integer \<open>n\<close>.\<close>

fun py_index :: "json \<Rightarrow> nat \<Rightarrow> error + json" where
  "py_index (JArr xs) n = (if n < length xs then Inr (xs ! n) else Inl IndexError)"
| "py_index (JStr s) n = (if n < length s then Inr (JStr [s ! n]) else Inl IndexError)"
| "py_index (JObj kvs) n = Inl KeyError"
| "py_index _ n = Inl TypeError"

text \<open>\<open>for x in obj\<close>: the elements of a list, the characters of a string, the keys of a dict.\<close>

fun py_iter :: "json \<Rightarrow> error + json list" where
  "py_iter (JArr xs) = Inr xs"
| "py_iter (JStr s) = Inr (map (\<lambda>c. JStr [c]) s)"
| "py_iter (JObj kvs) = Inr (map (\<lambda>kv. JStr (fst kv)) kvs)"
| "py_iter _ = Inl TypeError"

fun py_len :: "json \<Rightarrow> error + nat" where
  "py_len (JArr xs) = Inr (length xs)"
| "py_len (JStr s) = Inr (length s)"
| "py_len (JObj kvs) = Inr (length kvs)"
| "py_len _ = Inl TypeError"

text \<open>Truth value of an object, as \<open>if not obj\<close> tests it.\<close>

fun py_truthy :: "json \<Rightarrow> bool" where
  "py_truthy JNull = False"
| "py_truthy (JBool b) = b"
| "py_truthy (JNum x) = (x \<noteq> Fin 0)"
| "py_truthy (JStr s) = (s \<noteq> [])"
| "py_truthy (JArr xs) = (xs \<noteq> [])"
| "py_truthy (JObj kvs) = (kvs \<noteq> [])"

text \<open>
  The objects that compare with a float and that \<open>math.radians\<close> accepts: numbers, and
  bools as \<open>0\<close> and \<open>1\<close>.  Anything else raises TypeError there.
\<close>

fun num_of :: "json \<Rightarrow> fl option" where
  "num_of (JNum x) = Some x"
| "num_of (JBool b) = Some (Fin (if b then 1 else 0))"
| "num_of _ = None"

definition json_min :: "fl \<Rightarrow> json \<Rightarrow> error + fl" where
  "json_min m c = (case num_of c of None \<Rightarrow> Inl TypeError | Some x \<Rightarrow> Inr (py_min m x))"

definition json_max :: "fl \<Rightarrow> json \<Rightarrow> error + fl" where
  "json_max m c = (case num_of c of None \<Rightarrow> Inl TypeError | Some x \<Rightarrow> Inr (py_max m x))"

section \<open>The loader: \<open>GeoJSONData\<close>\<close>

text \<open>The dict \<open>{"min": (min_x, min_y), "max": (max_x, max_y)}\<close>.\<close>

record geo_bounds =
  bmin :: "fl \<times> fl"
  bmax :: "fl \<times> fl"

record geojson_data =
  features :: json
  bounds :: "geo_bounds option"

text \<open>\<open>coords.extend(ring)\<close> for each ring in turn.\<close>

fun extend_all :: "json list \<Rightarrow> error + json list" where
  "extend_all [] = Inr []"
| "extend_all (ring # rings) =
     (case py_iter ring of
        Inl e \<Rightarrow> Inl e
      | Inr cs \<Rightarrow>
          (case extend_all rings of
             Inl e \<Rightarrow> Inl e
           | Inr rest \<Rightarrow> Inr (cs @ rest)))"

definition get_feature_coordinates :: "json \<Rightarrow> error + json list" where
  "get_feature_coordinates feature =
     and_then (py_getitem feature ''geometry'') (\<lambda>geometry.
     and_then (py_getitem geometry ''type'') (\<lambda>ty.
       if ty = JStr ''Point'' then
         and_then (py_getitem geometry ''coordinates'') (\<lambda>c. Inr [c])
       else if ty = JStr ''LineString'' then
         and_then (py_getitem geometry ''coordinates'') py_iter
       else if ty = JStr ''Polygon'' then
         and_then (py_getitem geometry ''coordinates'') (\<lambda>c.
         and_then (py_iter c) extend_all)
       else Inr []))"

text \<open>The four running values of \<open>_calculate_bounds\<close>.\<close>

record minmax =
  min_x :: fl
  max_x :: fl
  min_y :: fl
  max_y :: fl

definition bounds_step :: "minmax \<Rightarrow> json \<Rightarrow> error + minmax" where
  "bounds_step b coord =
     and_then (py_index coord 0) (\<lambda>c0.
     and_then (json_min (min_x b) c0) (\<lambda>mnx.
     and_then (json_max (max_x b) c0) (\<lambda>mxx.
     and_then (py_index coord 1) (\<lambda>c1.
     and_then (json_min (min_y b) c1) (\<lambda>mny.
     and_then (json_max (max_y b) c1) (\<lambda>mxy.
       Inr \<lparr>min_x = mnx, max_x = mxx, min_y = mny, max_y = mxy\<rparr>))))))"

fun bounds_coords :: "minmax \<Rightarrow> json list \<Rightarrow> error + minmax" where
  "bounds_coords b [] = Inr b"
| "bounds_coords b (coord # coords) =
     (case bounds_step b coord of
        Inl e \<Rightarrow> Inl e
      | Inr b' \<Rightarrow> bounds_coords b' coords)"

fun bounds_features :: "minmax \<Rightarrow> json list \<Rightarrow> error + minmax" where
  "bounds_features b [] = Inr b"
| "bounds_features b (feature # fs) =
     (case get_feature_coordinates feature of
        Inl e \<Rightarrow> Inl e
      | Inr coords \<Rightarrow>
          (case bounds_coords b coords of
             Inl e \<Rightarrow> Inl e
           | Inr b' \<Rightarrow> bounds_features b' fs))"

definition seed :: minmax where
  "seed = \<lparr>min_x = PInf, max_x = NInf, min_y = PInf, max_y = NInf\<rparr>"

text \<open>\<open>_calculate_bounds\<close>: the new value of \<open>self.bounds\<close>, or the exception raised.\<close>

definition calculate_bounds :: "json \<Rightarrow> error + geo_bounds option" where
  "calculate_bounds fs =
     (if \<not> py_truthy fs then Inr None
      else
        and_then (py_iter fs) (\<lambda>features_list.
        and_then (bounds_features seed features_list) (\<lambda>b.
          Inr (Some \<lparr>bmin = (min_x b, min_y b), bmax = (max_x b, max_y b)\<rparr>))))"

text \<open>What opening and decoding the file gives.\<close>

datatype file_content = FileNotFound | JSONDecodeError | Parsed json

text \<open>
  The body of the \<open>try\<close> of \<open>load_from_file\<close> once the file is decoded: the exception
  raised, if any, and the object's fields at that moment.
\<close>

definition load_try :: "json \<Rightarrow> geojson_data \<Rightarrow> error option \<times> geojson_data" where
  "load_try data st =
     (case py_get data ''type'' (JStr ''unknown'') of
        Inl e \<Rightarrow> (Some e, st)
      | Inr _ \<Rightarrow>
     (case py_get data ''type'' JNull of
        Inl e \<Rightarrow> (Some e, st)
      | Inr ty \<Rightarrow>
          if ty \<notin> {JStr ''FeatureCollection'', JStr ''Feature''} then (Some ValueError, st)
          else
     (case py_getitem data ''type'' of
        Inl e \<Rightarrow> (Some e, st)
      | Inr ty' \<Rightarrow>
     (case (if ty' = JStr ''Feature'' then Inr (JArr [data])
            else py_get data ''features'' (JArr [])) of
        Inl e \<Rightarrow> (Some e, st)
      | Inr fs \<Rightarrow>
          let st1 = st\<lparr>features := fs\<rparr> in
     (case py_len fs of
        Inl e \<Rightarrow> (Some e, st1)
      | Inr _ \<Rightarrow>
     (case calculate_bounds fs of
        Inl e \<Rightarrow> (Some e, st1)
      | Inr b \<Rightarrow> (None, st1\<lparr>bounds := b\<rparr>)))))))"

text \<open>\<open>load_from_file\<close>: every exception is caught and turned into \<open>False\<close>.\<close>

definition load_from_file :: "file_content \<Rightarrow> geojson_data \<Rightarrow> bool \<times> geojson_data" where
  "load_from_file file st =
     (case file of
        FileNotFound \<Rightarrow> (False, st)
      | JSONDecodeError \<Rightarrow> (False, st)
      | Parsed data \<Rightarrow>
          (case load_try data st of
             (None, st') \<Rightarrow> (True, st')
           | (Some e, st') \<Rightarrow> (False, st')))"

text \<open>A fresh \<open>GeoJSONData()\<close>.\<close>

definition init_data :: geojson_data where
  "init_data = \<lparr>features = JArr [], bounds = None\<rparr>"






section \<open>The projector\<close>

text \<open>
  \<open>math.radians\<close>, and the functions \<open>math.sin\<close>, \<open>math.tan\<close>, \<open>math.pow\<close> and
  \<open>math.log\<close> on finite arguments, are the functions of the reals.  \<open>math.log\<close> raises
  ValueError on an argument that is not positive, \<open>math.tan\<close> and \<open>math.sin\<close> on an
  infinite one; a NaN argument gives NaN.  (At a pole of the tangent, a latitude of 90
  degrees, the real tangent is taken as \<open>0\<close> and the logarithm raises; the
  floating-point tangent is large and finite there.)
\<close>

definition radians :: "fl \<Rightarrow> fl" where
  "radians x = x * Fin (pi / 180)"

definition geo_to_cartesian :: "json \<Rightarrow> json \<Rightarrow> error + vec3" where
  "geo_to_cartesian lon lat =
     (case num_of lon of
        None \<Rightarrow> Inl TypeError
      | Some lon_f \<Rightarrow>
     (case num_of lat of
        None \<Rightarrow> Inl TypeError
      | Some lat_f \<Rightarrow>
          let a = 6378137;
              e = 0.081819190842622;
              lon_rad = radians lon_f;
              lat_rad = radians lat_f;
              x = Fin a * lon_rad
          in (case lat_rad of
                NaN \<Rightarrow> Inr (x, Fin 0, NaN)
              | NInf \<Rightarrow> Inl ValueError
              | PInf \<Rightarrow> Inl ValueError
              | Fin r \<Rightarrow>
                  let t = tan (pi / 4 + r / 2)
                          * ((1 - e * sin r) / (1 + e * sin r)) powr (e / 2)
                  in if t \<le> 0 then Inl ValueError
                     else Inr (x, Fin 0, Fin (- a * ln t)))))"

section \<open>Mesh emission: \<open>_create_stage_objects\<close>\<close>

text \<open>Python's float division: a zero divisor raises, whatever the dividend.\<close>

fun fl_quot :: "fl \<Rightarrow> fl \<Rightarrow> fl" where
  "fl_quot NaN _ = NaN"
| "fl_quot _ NaN = NaN"
| "fl_quot (Fin a) (Fin b) = Fin (a / b)"
| "fl_quot (Fin a) _ = Fin 0"
| "fl_quot a (Fin b) = (if fl_sgn a * fl_sgn (Fin b) < 0 then NInf else PInf)"
| "fl_quot _ _ = NaN"

definition py_div :: "fl \<Rightarrow> fl \<Rightarrow> error + fl" where
  "py_div a b = (if b = Fin 0 then Inl ZeroDivisionError else Inr (fl_quot a b))"

text \<open>The projected bounding box \<open>bounds_cart\<close>, on X and Z.\<close>

record cart_bounds =
  cmin_x :: fl
  cmin_z :: fl
  cmax_x :: fl
  cmax_z :: fl

definition cart_seed :: cart_bounds where
  "cart_seed = \<lparr>cmin_x = PInf, cmin_z = PInf, cmax_x = NInf, cmax_z = NInf\<rparr>"

fun cart_coords :: "cart_bounds \<Rightarrow> json list \<Rightarrow> error + cart_bounds" where
  "cart_coords b [] = Inr b"
| "cart_coords b (coord # coords) =
     (case py_index coord 0 of
        Inl e \<Rightarrow> Inl e
      | Inr c0 \<Rightarrow>
     (case py_index coord 1 of
        Inl e \<Rightarrow> Inl e
      | Inr c1 \<Rightarrow>
     (case geo_to_cartesian c0 c1 of
        Inl e \<Rightarrow> Inl e
      | Inr p \<Rightarrow>
          cart_coords
            \<lparr>cmin_x = py_min (cmin_x b) (vx p),
             cmin_z = py_min (cmin_z b) (vz p),
             cmax_x = py_max (cmax_x b) (vx p),
             cmax_z = py_max (cmax_z b) (vz p)\<rparr> coords)))"

text \<open>The first pass over the features.\<close>

fun cart_features :: "cart_bounds \<Rightarrow> json list \<Rightarrow> error + cart_bounds" where
  "cart_features b [] = Inr b"
| "cart_features b (feature # fs) =
     (case py_get feature ''geometry'' (JObj []) of
        Inl e \<Rightarrow> Inl e
      | Inr geometry \<Rightarrow>
     (case py_get geometry ''type'' JNull of
        Inl e \<Rightarrow> Inl e
      | Inr ty \<Rightarrow>
          if ty = JStr ''Polygon'' then
            (case py_get geometry ''coordinates'' (JArr [JArr []]) of
               Inl e \<Rightarrow> Inl e
             | Inr rings \<Rightarrow>
            (case py_index rings 0 of
               Inl e \<Rightarrow> Inl e
             | Inr ring \<Rightarrow>
            (case py_iter ring of
               Inl e \<Rightarrow> Inl e
             | Inr coords \<Rightarrow>
            (case cart_coords b coords of
               Inl e \<Rightarrow> Inl e
             | Inr b' \<Rightarrow> cart_features b' fs))))
          else cart_features b fs))"

text \<open>
  What is written on a mesh: the points, the face vertex counts, the face vertex
  indices and the normals, with the number of the feature in the name of the mesh.
  The display colour and the double-sided flag are constants.
\<close>

record mesh =
  feature_number :: nat
  mesh_points :: "vec3 list"
  face_vertex_counts :: "nat list"
  face_vertex_indices :: "nat list"
  normals :: "vec3 list"

text \<open>The points of the outer ring, projected one after the other.\<close>

fun project_ring :: "json list \<Rightarrow> error + vec3 list" where
  "project_ring [] = Inr []"
| "project_ring (coord # coords) =
     (case py_index coord 0 of
        Inl e \<Rightarrow> Inl e
      | Inr c0 \<Rightarrow>
     (case py_index coord 1 of
        Inl e \<Rightarrow> Inl e
      | Inr c1 \<Rightarrow>
     (case geo_to_cartesian c0 c1 of
        Inl e \<Rightarrow> Inl e
      | Inr p \<Rightarrow>
     (case project_ring coords of
        Inl e \<Rightarrow> Inl e
      | Inr ps \<Rightarrow> Inr (p # ps)))))"

text \<open>
  The body of the second loop for feature number \<open>i\<close>: the mesh written, if any, or
  the exception raised.
\<close>

definition emit_feature :: "nat \<Rightarrow> json \<Rightarrow> error + mesh option" where
  "emit_feature i feature =
     and_then (py_get feature ''geometry'' (JObj [])) (\<lambda>geometry.
     and_then (py_get geometry ''type'' (JStr ''Unknown'')) (\<lambda>geo_type.
       if geo_type = JStr ''Polygon'' then
         and_then (py_get geometry ''coordinates'' (JArr [])) (\<lambda>rings.
         and_then (py_len rings) (\<lambda>ring_count.
         and_then (py_index rings 0) (\<lambda>outer_ring.
         and_then (py_len outer_ring) (\<lambda>n.
           if n < 3 then Inr None
           else
             and_then (py_iter outer_ring) (\<lambda>coords.
             and_then (project_ring coords) (\<lambda>points.
               let face_indices = triangulate_polygon points in
               if face_indices \<noteq> [] then
                 let triangle_count = length face_indices div 3 in
                 Inr (Some \<lparr>feature_number = i,
                            mesh_points = points,
                            face_vertex_counts = replicate triangle_count 3,
                            face_vertex_indices = face_indices,
                            normals = replicate (length points) (Fin 0, Fin 1, Fin 0)\<rparr>)
               else Inr None))))))
       else if geo_type = JStr ''MultiPolygon'' then
         and_then (py_get geometry ''coordinates'' (JArr [])) (\<lambda>polygons.
         and_then (py_len polygons) (\<lambda>polygon_count. Inr None))
       else Inr None))"

text \<open>The second pass, over \<open>enumerate(features)\<close>.\<close>

fun emit_features :: "(nat \<times> json) list \<Rightarrow> error + mesh list" where
  "emit_features [] = Inr []"
| "emit_features ((i, feature) # rest) =
     (case emit_feature i feature of
        Inl e \<Rightarrow> Inl e
      | Inr m \<Rightarrow>
          (case emit_features rest of
             Inl e \<Rightarrow> Inl e
           | Inr ms \<Rightarrow> Inr ((case m of None \<Rightarrow> [] | Some d \<Rightarrow> [d]) @ ms)))"

record emission =
  center_x :: fl
  center_z :: fl
  scale :: fl
  meshes :: "mesh list"

definition width_of :: "cart_bounds \<Rightarrow> fl" where
  "width_of b = cmax_x b - cmin_x b"

definition depth_of :: "cart_bounds \<Rightarrow> fl" where
  "depth_of b = cmax_z b - cmin_z b"

text \<open>
  \<open>_create_stage_objects\<close> on the loaded features, with a stage at hand: the centre,
  the scale and the meshes, or the exception that ends it.
\<close>

definition create_stage_objects :: "json \<Rightarrow> error + emission" where
  "create_stage_objects fs =
     and_then (py_len fs) (\<lambda>feature_count.
     and_then (py_iter fs) (\<lambda>features_list.
     and_then (cart_features cart_seed features_list) (\<lambda>b.
       let cx = fl_quot (cmin_x b + cmax_x b) (Fin 2);
           cz = fl_quot (cmin_z b + cmax_z b) (Fin 2);
           width = width_of b;
           depth = depth_of b
       in
         and_then (py_div (Fin 1) (py_max width depth)) (\<lambda>q.
           let sc = q * Fin 1000 in
           and_then (emit_features (enumerate 0 features_list)) (\<lambda>ms.
             Inr \<lparr>center_x = cx, center_z = cz, scale = sc, meshes = ms\<rparr>)))))"


section \<open>Example inputs\<close>

text \<open>
  A closed unit square running counter-clockwise seen from \<open>+Y\<close>, a closed ring of
  three points, three points on a line, and a triangle running clockwise.
\<close>

definition unit_square :: "(real \<times> real \<times> real) list" where
  "unit_square = [(0, 0, 0), (0, 0, 1), (1, 0, 1), (1, 0, 0), (0, 0, 0)]"

definition closed_three :: "(real \<times> real \<times> real) list" where
  "closed_three = [(0, 0, 0), (0, 0, 1), (0, 0, 0)]"




definition clockwise_square :: "(real \<times> real \<times> real) list" where
  "clockwise_square = [(0, 0, 0), (1, 0, 0), (1, 0, 1), (0, 0, 1)]"


text \<open>Documents: a feature with a geometry, and a collection of features.\<close>

definition feature :: "string \<Rightarrow> json \<Rightarrow> json" where
  "feature ty coordinates =
     JObj [(''type'', JStr ''Feature''),
           (''geometry'', JObj [(''type'', JStr ty), (''coordinates'', coordinates)])]"

definition collection :: "json list \<Rightarrow> json" where
  "collection fs = JObj [(''type'', JStr ''FeatureCollection''), (''features'', JArr fs)]"

definition position :: "real \<Rightarrow> real \<Rightarrow> json" where
  "position lon lat = JArr [JNum (Fin lon), JNum (Fin lat)]"




text \<open>
  Polygons: one whose only ring is a single point, one with no ring at all, one whose
  ring has no point, and one whose ring has two points.
\<close>

definition single_point_polygon :: json where
  "single_point_polygon = feature ''Polygon'' (JArr [JArr [position 0 0]])"

definition no_ring_polygon :: json where
  "no_ring_polygon = feature ''Polygon'' (JArr [])"

definition short_ring_polygon :: json where
  "short_ring_polygon = feature ''Polygon'' (JArr [JArr [position 0 0, position 1 0]])"


section \<open>Lemmas on floats and points\<close>

lemma fin_arith [simp]:
  "Fin a - Fin b = Fin (a - b)"
  "Fin a * Fin b = Fin (a * b)"
  "Fin a + Fin b = Fin (a + b)"
  "(Fin a < Fin b) = (a < b)"
  "(Fin a \<le> Fin b) = (a \<le> b)"
  "(0::fl) = Fin 0"
  by (auto simp: minus_fl_def fl_sub_def times_fl_def plus_fl_def less_fl_def
      less_eq_fl_def fl_le_def zero_fl_def)

lemma pt_coords [simp]:
  "vx (pt p) = Fin (rx p)" "vz (pt p) = Fin (rz p)" "vy (pt p) = Fin (fst (snd p))"
  by (simp_all add: pt_def vx_def vy_def vz_def rx_def rz_def)

lemma vec_ne_pt [simp]: "vec_ne (pt p) (pt q) = (p \<noteq> q)"
  by (cases p; cases q) (auto simp: vec_ne_def pt_def vx_def vy_def vz_def)





lemma working_vertices_pt:
  "ps \<noteq> [] \<Longrightarrow> working_vertices (map pt ps) = map pt (open_ring ps)"
  by (simp add: working_vertices_def open_ring_def hd_conv_nth last_map map_butlast)




section \<open>The loop of the triangulator\<close>

lemma prev_of_mem: "remaining \<noteq> [] \<Longrightarrow> prev_of remaining i \<in> set remaining"
  unfolding prev_of_def
  by (rule nth_mem) (simp add: nat_less_iff)

lemma next_of_mem: "remaining \<noteq> [] \<Longrightarrow> next_of remaining i \<in> set remaining"
  unfolding next_of_def
  by (rule nth_mem) (simp add: nat_less_iff)

lemma find_mem: "find P xs = Some x \<Longrightarrow> x \<in> set xs"
  by (auto simp: find_Some_iff)

lemma find_holds: "find P xs = Some x \<Longrightarrow> P x"
  by (auto simp: find_Some_iff)

lemma ear_loop_stop:
  "\<not> 3 < length remaining \<Longrightarrow> ear_loop vs remaining indices = (remaining, indices)"
  by (simp add: ear_loop.simps)

lemma ear_loop_no_ear:
  "find (is_valid_ear vs remaining) remaining = None
   \<Longrightarrow> ear_loop vs remaining indices = (remaining, indices)"
  by (simp add: ear_loop.simps)

lemma ear_loop_ear:
  "3 < length remaining \<Longrightarrow> find (is_valid_ear vs remaining) remaining = Some i
   \<Longrightarrow> ear_loop vs remaining indices
       = ear_loop vs (remove1 i remaining)
           (indices @ [prev_of remaining i, i, next_of remaining i])"
  by (simp add: ear_loop.simps)

lemma not_3_dvd_small: "\<not> 3 dvd Suc 0" "\<not> 3 dvd Suc (Suc 0)"
  by presburger+

lemma triangles_append:
  "3 dvd length xs \<Longrightarrow> triangles (xs @ ys) = triangles xs @ triangles ys"
proof (induction xs rule: triangles.induct)
  case (1 a b c rest)
  then have "3 dvd length rest" by (simp add: dvd_def) presburger
  with 1 show ?case by simp
qed (simp_all add: not_3_dvd_small)

text \<open>
  What the loop keeps: indices stay inside a set that holds the remaining indices, the
  index list grows by whole triples, every triple it adds passed the test of
  \<open>is_valid_ear\<close>, and one index leaves the remaining list for each triple.
\<close>

lemma ear_loop_inv:
  assumes "ear_loop vs remaining indices = (r, ind)"
    and "set remaining \<subseteq> S" and "set indices \<subseteq> S"
    and "3 dvd length indices"
    and "\<forall>t \<in> set (triangles indices). Q t"
    and "\<And>rem i. is_valid_ear vs rem i \<Longrightarrow> Q (prev_of rem i, i, next_of rem i)"
  shows "set r \<subseteq> S \<and> set ind \<subseteq> S \<and> 3 dvd length ind
         \<and> (\<forall>t \<in> set (triangles ind). Q t)
         \<and> length ind + 3 * length r = length indices + 3 * length remaining
         \<and> (3 \<le> length remaining \<longrightarrow> 3 \<le> length r)"
  using assms
proof (induction vs remaining indices rule: ear_loop.induct)
  case (1 vertices remaining indices)
  show ?case
  proof (cases "3 < length remaining")
    case False
    with "1.prems" show ?thesis by (simp add: ear_loop_stop)
  next
    case long: True
    show ?thesis
    proof (cases "find (is_valid_ear vertices remaining) remaining")
      case None
      with "1.prems" show ?thesis by (simp add: ear_loop_no_ear)
    next
      case (Some i)
      from long have ne: "remaining \<noteq> []" by auto
      have i: "i \<in> set remaining" using Some by (rule find_mem)
      have ear: "is_valid_ear vertices remaining i" using Some by (rule find_holds)
      let ?t = "[prev_of remaining i, i, next_of remaining i]"
      let ?ind = "indices @ ?t"
      have run: "ear_loop vertices (remove1 i remaining) ?ind = (r, ind)"
        using "1.prems"(1) ear_loop_ear [OF long Some] by simp
      have a: "set (remove1 i remaining) \<subseteq> S"
        using "1.prems"(2) set_remove1_subset by fast
      have b: "set ?ind \<subseteq> S"
        using "1.prems"(2,3) i prev_of_mem [OF ne] next_of_mem [OF ne] by auto
      have c: "3 dvd length ?ind"
        using "1.prems"(4) by (simp add: dvd_def) presburger
      have "triangles ?ind = triangles indices @ [(prev_of remaining i, i, next_of remaining i)]"
        using "1.prems"(4) by (simp add: triangles_append)
      then have d: "\<forall>t \<in> set (triangles ?ind). Q t"
        using "1.prems"(5) "1.prems"(6) [OF ear] by simp
      have len: "length (remove1 i remaining) = length remaining - 1"
        using i by (simp add: length_remove1)
      have "set r \<subseteq> S \<and> set ind \<subseteq> S \<and> 3 dvd length ind
         \<and> (\<forall>t \<in> set (triangles ind). Q t)
         \<and> length ind + 3 * length r = length ?ind + 3 * length (remove1 i remaining)
         \<and> (3 \<le> length (remove1 i remaining) \<longrightarrow> 3 \<le> length r)"
        by (rule "1.IH" [OF long Some run a b c d "1.prems"(6)])
      then show ?thesis using len long by auto
    qed
  qed
qed

lemma working_vertices_take:
  "points \<noteq> [] \<Longrightarrow> working_vertices points = take (length (working_vertices points)) points"
  by (auto simp: working_vertices_def butlast_conv_take)

lemma working_vertices_length: "length (working_vertices points) \<le> length points"
  by (simp add: working_vertices_def)

lemma ear_clip_indices:
  "3 dvd length (ear_clip vs) \<and> (\<forall>i \<in> set (ear_clip vs). i < length vs)"
proof -
  obtain r ind where run: "ear_loop vs [0..<length vs] [] = (r, ind)"
    by (cases "ear_loop vs [0..<length vs] []")
  have "set r \<subseteq> {..<length vs} \<and> set ind \<subseteq> {..<length vs} \<and> 3 dvd length ind
         \<and> (\<forall>t \<in> set (triangles ind). True)
         \<and> length ind + 3 * length r = length ([]::nat list) + 3 * length [0..<length vs]
         \<and> (3 \<le> length [0..<length vs] \<longrightarrow> 3 \<le> length r)"
    by (rule ear_loop_inv [OF run]) auto
  then show ?thesis
    using run by (auto simp: ear_clip_def)
qed

text \<open>
  Claim C4.  For every input ring, the index list the triangulator returns has a length
  that is a multiple of 3 and every index in it is a valid index into the point array as
  passed in; the indices even stay inside the working vertex array, which is a prefix
  of the array passed in.
\<close>

theorem triangulate_indices_valid:
  "3 dvd length (triangulate_polygon points)
   \<and> (\<forall>i \<in> set (triangulate_polygon points).
        i < length (working_vertices points) \<and> i < length points)
   \<and> (3 \<le> length points \<longrightarrow>
        working_vertices points = take (length (working_vertices points)) points)"
proof -
  have "3 dvd length (triangulate_polygon points)"
    using ear_clip_indices [of "working_vertices points"]
    by (simp add: triangulate_polygon_def Let_def)
  moreover have "\<forall>i \<in> set (triangulate_polygon points). i < length (working_vertices points)"
    using ear_clip_indices [of "working_vertices points"]
    by (simp add: triangulate_polygon_def Let_def)
  moreover have "3 \<le> length points \<longrightarrow>
        working_vertices points = take (length (working_vertices points)) points"
    using working_vertices_take [of points] by (cases "points = []") auto
  ultimately show ?thesis
    using working_vertices_length [of points] by fastforce
qed

lemma unit_square_out: "triangulate_polygon (map pt unit_square) = [3, 0, 1, 1, 2, 3]"
  unfolding unit_square_def by code_simp

theorem triangulate_indices_valid_witness:
  "triangulate_polygon (map pt unit_square) = [3, 0, 1, 1, 2, 3]
   \<and> 3 dvd length (triangulate_polygon (map pt unit_square))
   \<and> list_all (\<lambda>i. i < 4 \<and> i < 5) (triangulate_polygon (map pt unit_square))
   \<and> working_vertices (map pt unit_square) = take 4 (map pt unit_square)"
proof -
  have l: "length (map pt unit_square) = 5" 
    by (simp add: unit_square_def)
  have "working_vertices (map pt unit_square) = map pt (open_ring unit_square)"
    by (rule working_vertices_pt) (simp add: unit_square_def)
  then have w: "length (working_vertices (map pt unit_square)) = 4"
    by (simp add: open_ring_def unit_square_def)
  show ?thesis
    using triangulate_indices_valid [of "map pt unit_square"] unit_square_out
    unfolding l w by simp
qed

text \<open>
  Claim C6.  An input of fewer than three points gives the empty list.  Otherwise, when
  the first and last points are coordinate-equal the last point is dropped and the
  triangulation runs on the rest, when they differ it runs on all the points; and a
  working vertex array of fewer than three vertices gives the empty list.
\<close>

theorem closing_point_dropped:
  "(length points < 3 \<longrightarrow> triangulate_polygon points = [])
   \<and> (3 \<le> length points \<longrightarrow>
        working_vertices points
          = (if vec_ne (points ! 0) (last points) then points else butlast points)
        \<and> triangulate_polygon points
          = (if length (working_vertices points) < 3 then []
             else ear_clip (working_vertices points)))"
  by (simp add: triangulate_polygon_def working_vertices_def Let_def)

theorem closing_point_dropped_witness:
  "3 \<le> length (map pt closed_three)
   \<and> \<not> vec_ne (map pt closed_three ! 0) (last (map pt closed_three))
   \<and> working_vertices (map pt closed_three) = butlast (map pt closed_three)
   \<and> length (working_vertices (map pt closed_three)) < 3
   \<and> triangulate_polygon (map pt closed_three) = []
   \<and> length (map pt [(0, 0, 0), (0, 0, 1)]) < 3
   \<and> triangulate_polygon (map pt [(0, 0, 0), (0, 0, 1)]) = []"
  using closing_point_dropped [of "map pt closed_three"]
    closing_point_dropped [of "map pt [(0, 0, 0), (0, 0, 1)]"]
  by (simp add: closed_three_def)


section \<open>Rings on a line\<close>








section \<open>Orientation of the emitted triangles\<close>












section \<open>Signed areas in the X/Z plane\<close>








lemma area_same: "same_xz p q \<Longrightarrow> signed_area_xz p q r = 0"
  by (simp add: signed_area_xz_def same_xz_def)





section \<open>Lines\<close>





section \<open>Indices in ring order\<close>










section \<open>Convex rings\<close>














section \<open>The bounds of a loaded document\<close>













section \<open>Features without a geometry\<close>
















section \<open>The scale of the normalisation\<close>

lemma scale_quot:
  "m \<noteq> Fin 0 \<Longrightarrow> fl_quot (Fin 1) m * Fin 1000 = fl_quot (Fin 1000) m"
  by (cases m) (simp_all add: times_fl_def)

text \<open>
  Claim C9.  With \<open>b\<close> the projected X/Z bounding box that the first pass folds over
  the outer rings of the Polygon features, \<open>width = max.x - min.x\<close> and
  \<open>depth = max.z - min.z\<close>: when \<open>max(width, depth)\<close> is zero, and so when width and
  depth are both zero, emission ends in ZeroDivisionError, nothing guards the division;
  and whenever emission returns, its scale is \<open>1000 / max(width, depth)\<close>.
\<close>

theorem scale_divides_by_extent:
  assumes "cart_features cart_seed fs = Inr b"
  shows "(py_max (width_of b) (depth_of b) = Fin 0 \<longrightarrow>
            create_stage_objects (JArr fs) = Inl ZeroDivisionError)
       \<and> (width_of b = Fin 0 \<and> depth_of b = Fin 0 \<longrightarrow>
            create_stage_objects (JArr fs) = Inl ZeroDivisionError)
       \<and> (\<forall>em. create_stage_objects (JArr fs) = Inr em \<longrightarrow>
            py_div (Fin 1000) (py_max (width_of b) (depth_of b)) = Inr (scale em))"
proof -
  have zero: "create_stage_objects (JArr fs) = Inl ZeroDivisionError"
    if "py_max (width_of b) (depth_of b) = Fin 0"
    using assms that by (simp add: create_stage_objects_def and_then_def py_div_def)
  have both: "py_max (width_of b) (depth_of b) = Fin 0"
    if "width_of b = Fin 0 \<and> depth_of b = Fin 0"
    using that by (simp add: py_max_def)
  have sc: "py_div (Fin 1000) (py_max (width_of b) (depth_of b)) = Inr (scale em)"
    if "create_stage_objects (JArr fs) = Inr em" for em
    using assms that
    by (auto simp: create_stage_objects_def and_then_def py_div_def Let_def scale_quot
        split: if_splits sum.splits)
  from zero both sc show ?thesis by blast
qed

lemma project_origin:
  "geo_to_cartesian (JNum (Fin 0)) (JNum (Fin 0)) = Inr (Fin 0, Fin 0, Fin 0)"
  by (simp add: geo_to_cartesian_def radians_def Let_def tan_45)

lemma project_one_east:
  "geo_to_cartesian (JNum (Fin 1)) (JNum (Fin 0))
     = Inr (Fin (6378137 * (pi / 180)), Fin 0, Fin 0)"
  by (simp add: geo_to_cartesian_def radians_def Let_def tan_45)

lemma single_point_box:
  "cart_features cart_seed [single_point_polygon]
     = Inr \<lparr>cmin_x = Fin 0, cmin_z = Fin 0, cmax_x = Fin 0, cmax_z = Fin 0\<rparr>"
  by (simp add: single_point_polygon_def feature_def position_def project_origin
      cart_seed_def py_min_def py_max_def less_fl_def vx_def vz_def)

lemma short_ring_box:
  "cart_features cart_seed [short_ring_polygon]
     = Inr \<lparr>cmin_x = Fin 0, cmin_z = Fin 0,
            cmax_x = Fin (6378137 * (pi / 180)), cmax_z = Fin 0\<rparr>"
  by (simp add: short_ring_polygon_def feature_def position_def project_origin
      project_one_east cart_seed_def py_min_def py_max_def less_fl_def vx_def vz_def)

lemma short_ring_emission:
  "create_stage_objects (JArr [short_ring_polygon])
     = Inr \<lparr>center_x = Fin (6378137 * (pi / 180) / 2), center_z = Fin 0,
            scale = Fin (1000 / (6378137 * (pi / 180))), meshes = []\<rparr>"
proof -
  have "emit_features (enumerate 0 [short_ring_polygon]) = Inr []"
    by (simp add: short_ring_polygon_def feature_def position_def emit_feature_def
        and_then_def)
  then show ?thesis
    by (simp add: create_stage_objects_def and_then_def short_ring_box width_of_def
        depth_of_def py_max_def py_div_def Let_def
        del: cart_features.simps emit_features.simps enumerate_simps)
qed

theorem scale_divides_by_extent_witness:
  "cart_features cart_seed [single_point_polygon]
     = Inr \<lparr>cmin_x = Fin 0, cmin_z = Fin 0, cmax_x = Fin 0, cmax_z = Fin 0\<rparr>
   \<and> width_of \<lparr>cmin_x = Fin 0, cmin_z = Fin 0, cmax_x = Fin 0, cmax_z = Fin 0\<rparr> = Fin 0
   \<and> depth_of \<lparr>cmin_x = Fin 0, cmin_z = Fin 0, cmax_x = Fin 0, cmax_z = Fin 0\<rparr> = Fin 0
   \<and> create_stage_objects (JArr [single_point_polygon]) = Inl ZeroDivisionError
   \<and> create_stage_objects (JArr [short_ring_polygon])
       = Inr \<lparr>center_x = Fin (6378137 * (pi / 180) / 2), center_z = Fin 0,
              scale = Fin (1000 / (6378137 * (pi / 180))), meshes = []\<rparr>
   \<and> py_div (Fin 1000) (py_max (Fin (6378137 * (pi / 180))) (Fin 0))
       = Inr (Fin (1000 / (6378137 * (pi / 180))))"
proof -
  let ?b = "\<lparr>cmin_x = Fin 0, cmin_z = Fin 0, cmax_x = Fin 0, cmax_z = Fin 0\<rparr>"
  have w: "width_of ?b = Fin 0 \<and> depth_of ?b = Fin 0"
    by (simp add: width_of_def depth_of_def)
  have m: "py_max (width_of ?b) (depth_of ?b) = Fin 0"
    using w by (simp add: py_max_def)
  let ?c = "\<lparr>cmin_x = Fin 0, cmin_z = Fin 0,
            cmax_x = Fin (6378137 * (pi / 180)), cmax_z = Fin 0\<rparr>"
  have wc: "width_of ?c = Fin (6378137 * (pi / 180)) \<and> depth_of ?c = Fin 0"
    by (simp add: width_of_def depth_of_def)
  show ?thesis
    using scale_divides_by_extent [OF single_point_box]
      scale_divides_by_extent [OF short_ring_box] single_point_box short_ring_emission
      w m wc
    by simp
qed

section \<open>A polygon without a ring\<close>

lemma no_ring_load:
  "load_from_file (Parsed (collection [no_ring_polygon])) init_data
     = (True, \<lparr>features = JArr [no_ring_polygon],
               bounds = Some \<lparr>bmin = (PInf, PInf), bmax = (NInf, NInf)\<rparr>\<rparr>)"
  by (simp add: load_from_file_def load_try_def collection_def no_ring_polygon_def
      feature_def init_data_def calculate_bounds_def and_then_def
      get_feature_coordinates_def seed_def)

text \<open>
  Claim C10.  A Polygon feature whose \<open>"coordinates"\<close> is an empty list of rings is
  loaded with success; mesh emission on it ends in IndexError, raised where the first
  ring is indexed (in the second loop taken alone as well), while a Polygon whose ring
  has two points is skipped by the second loop and emission returns without a mesh.
\<close>

theorem empty_rings_index_error:
  "load_from_file (Parsed (collection [no_ring_polygon])) init_data
     = (True, \<lparr>features = JArr [no_ring_polygon],
               bounds = Some \<lparr>bmin = (PInf, PInf), bmax = (NInf, NInf)\<rparr>\<rparr>)
   \<and> create_stage_objects (JArr [no_ring_polygon]) = Inl IndexError
   \<and> cart_features cart_seed [no_ring_polygon] = Inl IndexError
   \<and> emit_feature 0 no_ring_polygon = Inl IndexError
   \<and> emit_feature 0 short_ring_polygon = Inr None
   \<and> create_stage_objects (JArr [short_ring_polygon])
       = Inr \<lparr>center_x = Fin (6378137 * (pi / 180) / 2), center_z = Fin 0,
              scale = Fin (1000 / (6378137 * (pi / 180))), meshes = []\<rparr>"
proof -
  have 1: "create_stage_objects (JArr [no_ring_polygon]) = Inl IndexError"
    by (simp add: create_stage_objects_def and_then_def no_ring_polygon_def feature_def)
  have 2: "cart_features cart_seed [no_ring_polygon] = Inl IndexError"
    by (simp add: no_ring_polygon_def feature_def)
  have 3: "emit_feature 0 no_ring_polygon = Inl IndexError"
    by (simp add: emit_feature_def and_then_def no_ring_polygon_def feature_def)
  have 4: "emit_feature 0 short_ring_polygon = Inr None"
    by (simp add: emit_feature_def and_then_def short_ring_polygon_def feature_def
        position_def)
  from no_ring_load 1 2 3 4 short_ring_emission show ?thesis by simp
qed

end
